theory Spec2Isabelle
  imports Complex_Main "HOL-Library.Sublist"
begin

section \<open>Sensor simulator: delivery, offline buffer and resynchronisation\<close>

text \<open>
  A shallow embedding of \<^verbatim>\<open>src/main.py\<close> (class \<^verbatim>\<open>SensorSimulator\<close>).
  Every method becomes a function that takes the simulator and returns it updated.
  The two transports (the MQTT client and the Web3 handle), the clock and the random
  source are outside the program; they enter the model as an environment of oracles and
  as the samples handed to the loop.
\<close>

subsection \<open>Readings\<close>

text \<open>
  The dictionary built by \<^verbatim>\<open>create_sensor_data\<close>: seven fixed keys. Python floats are
  modelled by exact reals.
\<close>

record reading =
  sensor_id :: string
  timestamp :: string
  temperature :: real
  humidity :: real
  location :: string
  unit_temp :: string
  unit_humidity :: string

text \<open>
  What one call of \<^verbatim>\<open>create_sensor_data\<close> takes from outside the program: the wall
  clock (already in ISO format), the value of \<^verbatim>\<open>random.uniform(-5, 8)\<close> and the value of
  \<^verbatim>\<open>random.normalvariate(50, 15)\<close>.
\<close>

record sample =
  now :: string
  uniform :: real
  normalvariate :: real

text \<open>
  \<^verbatim>\<open>round(x, 2)\<close>: the nearest multiple of one hundredth, a tie going to the even
  neighbour.
\<close>

definition round_half_even :: "real \<Rightarrow> int" where
  "round_half_even y =
     (let f = \<lfloor>y\<rfloor> in
      if y - of_int f < 1 / 2 then f
      else if 1 / 2 < y - of_int f then f + 1
      else if even f then f else f + 1)"

definition round2 :: "real \<Rightarrow> real" where
  "round2 x = of_int (round_half_even (x * 100)) / 100"

definition generate_temperature :: "sample \<Rightarrow> real" where
  "generate_temperature smp =
     (let base_temp = 22.5;
          variation = uniform smp
      in round2 (base_temp + variation))"

definition generate_humidity :: "sample \<Rightarrow> real" where
  "generate_humidity smp =
     (let humidity = normalvariate smp
      in round2 (max 20 (min 90 humidity)))"

definition create_sensor_data :: "string \<Rightarrow> sample \<Rightarrow> reading" where
  "create_sensor_data sid smp =
     \<lparr> sensor_id = sid,
       timestamp = now smp,
       temperature = generate_temperature smp,
       humidity = generate_humidity smp,
       location = ''Office Room'',
       unit_temp = [CHR 0xB0, CHR ''C''],
       unit_humidity = ''%'' \<rparr>"

subsection \<open>The offline file\<close>

text \<open>
  The program looks at the text of the offline file only through \<^verbatim>\<open>not content\<close>,
  \<^verbatim>\<open>content.strip()\<close> and \<^verbatim>\<open>json.loads\<close>, and writes it only through
  \<^verbatim>\<open>json.dump\<close> of a list of readings. The text is therefore kept as the class it
  falls into:
  \<^item> \<open>Empty\<close>: the empty string;
  \<^item> \<open>Blank\<close>: not empty, but \<^verbatim>\<open>strip()\<close> leaves nothing;
  \<^item> \<open>Unparsable\<close>: text that \<^verbatim>\<open>json.loads\<close> rejects with \<^verbatim>\<open>JSONDecodeError\<close>,
    stripped or not;
  \<^item> \<open>Records xs\<close>: a JSON array that \<^verbatim>\<open>json.loads\<close> turns into the list of readings
    \<open>xs\<close>; this is what \<^verbatim>\<open>json.dump(xs, f, indent=4)\<close> writes.
  Text that is valid JSON but no array of readings is not part of the model. Storage is
  taken to work: opening, reading, writing and removing the file do not fail.
\<close>

datatype content = Empty | Blank | Unparsable | Records "reading list"

subsection \<open>The transports\<close>

datatype web3 = Web3 string

datatype publish_result = Rc int | Publish_raises

datatype tx_result = Tx_hash string | Tx_raises

definition MQTT_ERR_SUCCESS :: int where
  "MQTT_ERR_SUCCESS = 0"

text \<open>The calls the program makes on the two transports, in the order it makes them.\<close>

datatype call = Publish reading | Is_connected | Send_transaction reading

text \<open>
  What the outside world answers. The number is the count of deliveries made so far
  (\<open>clock\<close> below), so that the same reading may meet a different answer at a later
  attempt.
\<close>

record env =
  client_connect_raises :: bool
  publish :: "nat \<Rightarrow> reading \<Rightarrow> publish_result"
  is_connected :: "nat \<Rightarrow> bool"
  send_transaction :: "nat \<Rightarrow> reading \<Rightarrow> tx_result"

subsection \<open>The simulator\<close>

text \<open>
  \<open>offline_mode\<close> and \<open>w3\<close> are the attributes of the object. \<open>offline_file\<close> is the
  file at the path \<^verbatim>\<open>self.offline_file\<close>, \<open>None\<close> when it does not exist. \<open>clock\<close>
  counts the deliveries made and \<open>calls\<close> records the transport calls.
\<close>

record simulator =
  offline_mode :: bool
  w3 :: "web3 option"
  offline_file :: "content option"
  clock :: nat
  calls :: "call list"

text \<open>
  The first half of \<^verbatim>\<open>save_data_offline\<close> (lines 165 to 183): the list the method
  starts from. An absent, empty, blank or unparsable file gives the empty list.
\<close>

definition read_offline_data :: "simulator \<Rightarrow> reading list" where
  "read_offline_data s =
     (case offline_file s of
        None \<Rightarrow> []
      | Some Empty \<Rightarrow> []
      | Some Blank \<Rightarrow> []
      | Some Unparsable \<Rightarrow> []
      | Some (Records xs) \<Rightarrow> xs)"

definition save_data_offline :: "simulator \<Rightarrow> reading \<Rightarrow> simulator" where
  "save_data_offline s data =
     (let offline_data = read_offline_data s;
          offline_data = offline_data @ [data]
      in s\<lparr>offline_file := Some (Records offline_data)\<rparr>)"

definition send_data :: "env \<Rightarrow> simulator \<Rightarrow> reading \<Rightarrow> bool \<Rightarrow> bool \<times> simulator" where
  "send_data e s data allow_offline_save =
     (let s1 = s\<lparr>calls := calls s @ [Publish data]\<rparr> in
      case publish e (clock s) data of
        Rc rc \<Rightarrow>
          if rc = MQTT_ERR_SUCCESS then (True, s1)
          else (False, if allow_offline_save then save_data_offline s1 data else s1)
      | Publish_raises \<Rightarrow>
          (False, if allow_offline_save then save_data_offline s1 data else s1))"

definition send_to_blockchain :: "env \<Rightarrow> simulator \<Rightarrow> reading \<Rightarrow> bool \<Rightarrow> bool \<times> simulator" where
  "send_to_blockchain e s data allow_offline_save =
     (case w3 s of
        None \<Rightarrow> (False, if allow_offline_save then save_data_offline s data else s)
      | Some h \<Rightarrow>
          let s1 = s\<lparr>calls := calls s @ [Is_connected]\<rparr> in
          if \<not> is_connected e (clock s)
          then (False, if allow_offline_save then save_data_offline s1 data else s1)
          else
            let s2 = s1\<lparr>calls := calls s1 @ [Send_transaction data]\<rparr> in
            case send_transaction e (clock s) data of
              Tx_hash tx \<Rightarrow> (True, s2)
            | Tx_raises \<Rightarrow>
                (False, if allow_offline_save then save_data_offline s2 data else s2))"

text \<open>The \<^verbatim>\<open>for\<close> loop of \<^verbatim>\<open>resync_offline_data\<close> (lines 214 to 219).\<close>

fun resync_loop ::
  "env \<Rightarrow> simulator \<Rightarrow> reading list \<Rightarrow> reading list \<Rightarrow> reading list \<times> simulator" where
  "resync_loop e s [] remaining_data = (remaining_data, s)"
| "resync_loop e s (data # rest) remaining_data =
     (let (mqtt_success, s1) = send_data e s data False;
          (blockchain_success, s2) = send_to_blockchain e s1 data False;
          remaining_data' =
            (if \<not> mqtt_success \<or> \<not> blockchain_success
             then remaining_data @ [data] else remaining_data)
      in resync_loop e (s2\<lparr>clock := Suc (clock s2)\<rparr>) rest remaining_data')"

definition resync_offline_data :: "env \<Rightarrow> simulator \<Rightarrow> simulator" where
  "resync_offline_data e s =
     (case offline_file s of
        None \<Rightarrow> s
      | Some Empty \<Rightarrow> s
      | Some Blank \<Rightarrow> s
      | Some Unparsable \<Rightarrow> s
      | Some (Records offline_data) \<Rightarrow>
          if offline_data = [] then s
          else
            let (remaining_data, s1) = resync_loop e s offline_data [] in
            if remaining_data = [] then s1\<lparr>offline_file := None\<rparr>
            else s1\<lparr>offline_file := Some (Records remaining_data)\<rparr>)"

definition connect :: "env \<Rightarrow> bool" where
  "connect e = (if client_connect_raises e then False else True)"

text \<open>One pass through the body of the \<^verbatim>\<open>while\<close> loop (lines 261 to 273).\<close>

definition tick :: "env \<Rightarrow> simulator \<Rightarrow> sample \<Rightarrow> simulator" where
  "tick e s smp =
     (let sensor_data = create_sensor_data ''sensor_01'' smp;
          s' =
            (if offline_mode s then save_data_offline s sensor_data
             else
               let (mqtt_success, s1) = send_data e s sensor_data True;
                   (blockchain_success, s2) = send_to_blockchain e s1 sensor_data True
               in if \<not> mqtt_success \<and> \<not> blockchain_success
                  then s2\<lparr>offline_mode := True\<rparr> else s2)
      in s'\<lparr>clock := Suc (clock s')\<rparr>)"

text \<open>
  The \<^verbatim>\<open>while True\<close> loop, run for as many passes as there are samples: the list is the
  part of the run before the duration is reached or the operator interrupts.
\<close>

fun simulation_loop :: "env \<Rightarrow> simulator \<Rightarrow> sample list \<Rightarrow> simulator" where
  "simulation_loop e s [] = s"
| "simulation_loop e s (smp # rest) = simulation_loop e (tick e s smp) rest"

definition run_simulation :: "env \<Rightarrow> simulator \<Rightarrow> sample list \<Rightarrow> simulator" where
  "run_simulation e s smps =
     (let connected = connect e;
          s1 = s\<lparr>offline_mode := \<not> connected\<rparr>;
          s2 = (if connected then resync_offline_data e s1 else s1)
      in simulation_loop e s2 smps)"

subsection \<open>Vocabulary of the properties\<close>

text \<open>
  The message-channel attempt number \<open>n\<close> for \<open>data\<close> succeeds when \<^verbatim>\<open>publish\<close> answers
  with the success code; the ledger attempt succeeds when there is a handle, it reports a
  connection and the transaction does not raise.
\<close>

definition publish_ok :: "env \<Rightarrow> nat \<Rightarrow> reading \<Rightarrow> bool" where
  "publish_ok e n data = (publish e n data = Rc MQTT_ERR_SUCCESS)"

definition ledger_ok :: "env \<Rightarrow> web3 option \<Rightarrow> nat \<Rightarrow> reading \<Rightarrow> bool" where
  "ledger_ok e h n data =
     (h \<noteq> None \<and> is_connected e n \<and> send_transaction e n data \<noteq> Tx_raises)"

text \<open>
  The readings of \<open>xs\<close>, in their order, for which at least one of the two attempts
  fails, the first reading being attempt number \<open>n\<close>, the next \<open>n + 1\<close>, and so on.
\<close>

definition retained :: "env \<Rightarrow> web3 option \<Rightarrow> nat \<Rightarrow> reading list \<Rightarrow> reading list" where
  "retained e h n xs =
     map snd (filter (\<lambda>(i, data). \<not> publish_ok e i data \<or> \<not> ledger_ok e h i data)
                     (enumerate n xs))"

text \<open>The invariant of the offline file: absent, or a JSON array.\<close>

definition valid_buffer :: "content option \<Rightarrow> bool" where
  "valid_buffer f = (case f of None \<Rightarrow> True | Some (Records xs) \<Rightarrow> True | Some _ \<Rightarrow> False)"

subsection \<open>Sample values\<close>

text \<open>Concrete readings, environments and simulators on which the theorems are run.\<close>

definition reading_cool :: reading where
  "reading_cool =
     \<lparr> sensor_id = ''sensor_01'', timestamp = ''2024-05-01T10:00:00'',
       temperature = 21.4, humidity = 48.25, location = ''Office Room'',
       unit_temp = [CHR 0xB0, CHR ''C''], unit_humidity = ''%'' \<rparr>"

definition reading_warm :: reading where
  "reading_warm =
     \<lparr> sensor_id = ''sensor_01'', timestamp = ''2024-05-01T10:00:10'',
       temperature = 28.9, humidity = 61.5, location = ''Office Room'',
       unit_temp = [CHR 0xB0, CHR ''C''], unit_humidity = ''%'' \<rparr>"

definition sample_one :: sample where
  "sample_one = \<lparr> now = ''2024-05-01T10:00:20'', uniform = 1.234, normalvariate = 95 \<rparr>"

definition sample_two :: sample where
  "sample_two = \<lparr> now = ''2024-05-01T10:00:30'', uniform = - 5, normalvariate = 43.217 \<rparr>"

text \<open>Both transports unreachable: \<^verbatim>\<open>publish\<close> answers 4 (no connection).\<close>

definition env_down :: env where
  "env_down =
     \<lparr> client_connect_raises = True, publish = (\<lambda>n data. Rc 4),
       is_connected = (\<lambda>n. False), send_transaction = (\<lambda>n data. Tx_raises) \<rparr>"

text \<open>The broker accepts everything; the ledger node is unreachable.\<close>

definition env_broker_only :: env where
  "env_broker_only =
     \<lparr> client_connect_raises = False, publish = (\<lambda>n data. Rc 0),
       is_connected = (\<lambda>n. False), send_transaction = (\<lambda>n data. Tx_raises) \<rparr>"

text \<open>The ledger accepts everything; the broker refuses readings of 25 degrees and more.\<close>

definition env_picky :: env where
  "env_picky =
     \<lparr> client_connect_raises = False,
       publish = (\<lambda>n data. if temperature data < 25 then Rc 0 else Rc 4),
       is_connected = (\<lambda>n. True), send_transaction = (\<lambda>n data. Tx_hash ''0xab'') \<rparr>"

definition sim_start :: "web3 option \<Rightarrow> content option \<Rightarrow> simulator" where
  "sim_start h f = \<lparr> offline_mode = False, w3 = h, offline_file = f, clock = 0, calls = [] \<rparr>"

definition ganache :: "web3 option" where
  "ganache = Some (Web3 ''HTTP://127.0.0.1:7545'')"


section \<open>Auxiliary facts\<close>

lemmas sample_defs =
  reading_cool_def reading_warm_def sample_one_def sample_two_def env_down_def
  env_broker_only_def env_picky_def sim_start_def ganache_def


lemma read_save: "read_offline_data (save_data_offline s d) = read_offline_data s @ [d]"
  by (simp add: read_offline_data_def save_data_offline_def)

lemma save_fields:
  "calls (save_data_offline s d) = calls s"
  "clock (save_data_offline s d) = clock s"
  "w3 (save_data_offline s d) = w3 s"
  "offline_mode (save_data_offline s d) = offline_mode s"
  by (simp_all add: save_data_offline_def)

lemma send_data_False:
  "send_data e s d False = (publish_ok e (clock s) d, s\<lparr>calls := calls s @ [Publish d]\<rparr>)"
  by (simp add: send_data_def publish_ok_def Let_def split: publish_result.splits)

lemma send_data_True:
  "send_data e s d True =
     (publish_ok e (clock s) d,
      if publish_ok e (clock s) d then s\<lparr>calls := calls s @ [Publish d]\<rparr>
      else save_data_offline (s\<lparr>calls := calls s @ [Publish d]\<rparr>) d)"
  by (simp add: send_data_def publish_ok_def Let_def split: publish_result.splits)

lemma fst_send_to_blockchain:
  "fst (send_to_blockchain e s d a) = ledger_ok e (w3 s) (clock s) d"
  by (simp add: send_to_blockchain_def ledger_ok_def Let_def split: option.splits tx_result.splits)

lemma send_to_blockchain_False_fields:
  "offline_file (snd (send_to_blockchain e s d False)) = offline_file s"
  "clock (snd (send_to_blockchain e s d a)) = clock s"
  "w3 (snd (send_to_blockchain e s d a)) = w3 s"
  "offline_mode (snd (send_to_blockchain e s d a)) = offline_mode s"
  by (simp_all add: send_to_blockchain_def Let_def save_fields split: option.splits tx_result.splits)

lemma read_calls: "read_offline_data (s\<lparr>calls := c\<rparr>) = read_offline_data s"
  by (simp add: read_offline_data_def)

lemma read_other_fields:
  "read_offline_data (s\<lparr>clock := n\<rparr>) = read_offline_data s"
  "read_offline_data (s\<lparr>offline_mode := b\<rparr>) = read_offline_data s"
  by (simp_all add: read_offline_data_def)

lemma read_send_to_blockchain_True:
  "read_offline_data (snd (send_to_blockchain e s d True)) =
     read_offline_data s @ (if ledger_ok e (w3 s) (clock s) d then [] else [d])"
  by (simp add: send_to_blockchain_def ledger_ok_def Let_def read_save read_calls
      split: option.splits tx_result.splits)

lemma retained_Nil: "retained e h n [] = []"
  by (simp add: retained_def)

lemma retained_Cons:
  "retained e h n (d # ds) =
     (if \<not> publish_ok e n d \<or> \<not> ledger_ok e h n d then [d] else []) @ retained e h (Suc n) ds"
  by (simp add: retained_def)

lemma resync_loop_result:
  "fst (resync_loop e s xs acc) = acc @ retained e (w3 s) (clock s) xs
   \<and> offline_file (snd (resync_loop e s xs acc)) = offline_file s
   \<and> w3 (snd (resync_loop e s xs acc)) = w3 s
   \<and> offline_mode (snd (resync_loop e s xs acc)) = offline_mode s
   \<and> clock (snd (resync_loop e s xs acc)) = clock s + length xs"
proof (induction xs arbitrary: s acc)
  case Nil
  show ?case by (simp add: retained_Nil)
next
  case (Cons d ds)
  obtain b s2 where sb: "send_to_blockchain e (s\<lparr>calls := calls s @ [Publish d]\<rparr>) d False = (b, s2)"
    by (cases "send_to_blockchain e (s\<lparr>calls := calls s @ [Publish d]\<rparr>) d False")
  have b: "b = ledger_ok e (w3 s) (clock s) d"
    using fst_send_to_blockchain [of e "s\<lparr>calls := calls s @ [Publish d]\<rparr>" d False] sb by simp
  have f: "offline_file s2 = offline_file s" "clock s2 = clock s" "w3 s2 = w3 s"
    "offline_mode s2 = offline_mode s"
    using send_to_blockchain_False_fields(1) [of e "s\<lparr>calls := calls s @ [Publish d]\<rparr>" d]
      send_to_blockchain_False_fields(2-4) [of e "s\<lparr>calls := calls s @ [Publish d]\<rparr>" d False] sb
    by simp_all
  show ?case
    using Cons.IH [of "s2\<lparr>clock := Suc (clock s2)\<rparr>"]
    by (simp add: send_data_False sb b f retained_Cons)
qed

lemma subseq_retained: "subseq (retained e h n xs) xs"
  by (induction xs arbitrary: n) (auto simp: retained_Nil retained_Cons intro: list_emb_Cons)

lemma retained_const:
  assumes "\<forall>n m d. publish_ok e n d = publish_ok e m d"
    and "\<forall>n m d. ledger_ok e h n d = ledger_ok e h m d"
  shows "retained e h n xs = filter (\<lambda>d. \<not> publish_ok e 0 d \<or> \<not> ledger_ok e h 0 d) xs"
proof (induction xs arbitrary: n)
  case Nil
  show ?case by (simp add: retained_Nil)
next
  case (Cons d ds)
  have "publish_ok e n d = publish_ok e 0 d" "ledger_ok e h n d = ledger_ok e h 0 d"
    using assms by blast+
  then show ?case using Cons.IH [of "Suc n"] by (simp add: retained_Cons)
qed

lemma resync_file:
  assumes "offline_file s = Some (Records xs)" "xs \<noteq> []"
  shows "offline_file (resync_offline_data e s) =
           (if retained e (w3 s) (clock s) xs = [] then None
            else Some (Records (retained e (w3 s) (clock s) xs)))"
    and "w3 (resync_offline_data e s) = w3 s"
proof -
  obtain r s1 where l: "resync_loop e s xs [] = (r, s1)"
    by (cases "resync_loop e s xs []")
  have r: "r = retained e (w3 s) (clock s) xs" and w: "w3 s1 = w3 s"
    using resync_loop_result [of e s xs "[]"] l by simp_all
  show "offline_file (resync_offline_data e s) =
           (if retained e (w3 s) (clock s) xs = [] then None
            else Some (Records (retained e (w3 s) (clock s) xs)))"
    using assms by (simp add: resync_offline_data_def l r)
  show "w3 (resync_offline_data e s) = w3 s"
    using assms by (simp add: resync_offline_data_def l w)
qed

lemma resync_unchanged:
  assumes "\<forall>xs. offline_file s = Some (Records xs) \<longrightarrow> xs = []"
  shows "resync_offline_data e s = s"
  using assms by (simp add: resync_offline_data_def split: option.splits content.splits)




lemma send_data_fields:
  "fst (send_data e s d a) = publish_ok e (clock s) d"
  "clock (snd (send_data e s d a)) = clock s"
  "w3 (snd (send_data e s d a)) = w3 s"
  "offline_mode (snd (send_data e s d a)) = offline_mode s"
  "calls (snd (send_data e s d a)) = calls s @ [Publish d]"
  by (cases a; simp add: send_data_True send_data_False save_fields)+

lemma read_send_data_True:
  "read_offline_data (snd (send_data e s d True)) =
     read_offline_data s @ (if publish_ok e (clock s) d then [] else [d])"
  by (simp add: send_data_True read_save read_calls)

lemma valid_save: "valid_buffer (offline_file (save_data_offline s d))"
  by (simp add: save_data_offline_def valid_buffer_def)

lemma valid_send_data:
  "valid_buffer (offline_file s) \<Longrightarrow> valid_buffer (offline_file (snd (send_data e s d a)))"
  by (cases a) (simp_all add: send_data_True send_data_False valid_save)

lemma valid_send_to_blockchain:
  "valid_buffer (offline_file s) \<Longrightarrow> valid_buffer (offline_file (snd (send_to_blockchain e s d a)))"
  by (simp add: send_to_blockchain_def Let_def valid_save split: option.splits tx_result.splits)

lemma valid_resync:
  assumes "valid_buffer (offline_file s)"
  shows "valid_buffer (offline_file (resync_offline_data e s))"
proof (cases "\<exists>xs. offline_file s = Some (Records xs) \<and> xs \<noteq> []")
  case True
  then obtain xs where "offline_file s = Some (Records xs)" "xs \<noteq> []" by blast
  from resync_file(1) [OF this] show ?thesis by (simp add: valid_buffer_def)
next
  case False
  then have "resync_offline_data e s = s" by (intro resync_unchanged) auto
  with assms show ?thesis by simp
qed

lemma tick_offline_mode:
  "offline_mode (tick e s smp) =
     (offline_mode s \<or>
      (\<not> publish_ok e (clock s) (create_sensor_data ''sensor_01'' smp) \<and>
       \<not> ledger_ok e (w3 s) (clock s) (create_sensor_data ''sensor_01'' smp)))"
  by (simp add: tick_def Let_def case_prod_beta save_fields send_data_fields
      fst_send_to_blockchain send_to_blockchain_False_fields)

lemma tick_offline_calls: "offline_mode s \<Longrightarrow> calls (tick e s smp) = calls s"
  by (simp add: tick_def Let_def save_fields)

lemma loop_stays_offline:
  "offline_mode s \<Longrightarrow>
     offline_mode (simulation_loop e s smps) \<and> calls (simulation_loop e s smps) = calls s"
proof (induction smps arbitrary: s)
  case Nil
  then show ?case by simp
next
  case (Cons smp rest)
  have "offline_mode (tick e s smp)" using Cons.prems by (simp add: tick_offline_mode)
  from Cons.IH [OF this] show ?case using Cons.prems by (simp add: tick_offline_calls)
qed

lemma simulation_loop_append:
  "simulation_loop e s (pre @ post) = simulation_loop e (simulation_loop e s pre) post"
  by (induction pre arbitrary: s) simp_all

lemma read_resync:
  "subseq (read_offline_data (resync_offline_data e s)) (read_offline_data s)"
proof (cases "\<exists>xs. offline_file s = Some (Records xs) \<and> xs \<noteq> []")
  case True
  then obtain xs where xs: "offline_file s = Some (Records xs)" "xs \<noteq> []" by blast
  have "read_offline_data (resync_offline_data e s) = retained e (w3 s) (clock s) xs"
    using resync_file(1) [OF xs, of e] by (simp add: read_offline_data_def)
  moreover have "read_offline_data s = xs" using xs by (simp add: read_offline_data_def)
  ultimately show ?thesis by (simp add: subseq_retained)
next
  case False
  then have "resync_offline_data e s = s" by (intro resync_unchanged) auto
  then show ?thesis by simp
qed

section \<open>The properties\<close>

text \<open>
  C1. A run of \<^verbatim>\<open>resync_offline_data\<close> on a buffer that holds at least one reading
  drops a reading only when both its message-channel attempt and its ledger attempt
  succeed. After the pass the file holds exactly the readings for which at least one
  attempt failed, in their original order, and the file is removed when there are none.
\<close>

theorem resync_keeps_exactly_the_unresolved:
  assumes "offline_file s = Some (Records xs)" and "xs \<noteq> []"
  shows "offline_file (resync_offline_data e s) =
           (if retained e (w3 s) (clock s) xs = [] then None
            else Some (Records (retained e (w3 s) (clock s) xs)))
         \<and> subseq (retained e (w3 s) (clock s) xs) xs"
  using resync_file(1) [OF assms] by (simp add: subseq_retained)

theorem resync_keeps_exactly_the_unresolved_witness:
  "offline_file (sim_start ganache (Some (Records [reading_cool, reading_warm, reading_cool])))
     = Some (Records [reading_cool, reading_warm, reading_cool])
   \<and> [reading_cool, reading_warm, reading_cool] \<noteq> []
   \<and> offline_file (resync_offline_data env_picky
        (sim_start ganache (Some (Records [reading_cool, reading_warm, reading_cool]))))
     = Some (Records [reading_warm])
   \<and> offline_file (resync_offline_data env_picky
        (sim_start ganache (Some (Records [reading_cool])))) = None"
  using resync_keeps_exactly_the_unresolved
    [of "sim_start ganache (Some (Records [reading_cool, reading_warm, reading_cool]))"
        "[reading_cool, reading_warm, reading_cool]" env_picky]
    resync_keeps_exactly_the_unresolved
    [of "sim_start ganache (Some (Records [reading_cool]))" "[reading_cool]" env_picky]
  by (simp add: sample_defs retained_def publish_ok_def ledger_ok_def MQTT_ERR_SUCCESS_def)

text \<open>
  C2. When a reading is delivered with buffering allowed, each channel that fails appends
  the reading to the offline buffer once, independently of the other channel. A reading
  that fails on both channels is therefore in the buffer twice.
\<close>

theorem each_failed_channel_appends_once:
  "(let (mqtt_success, s1) = send_data e s d True;
        (blockchain_success, s2) = send_to_blockchain e s1 d True
    in mqtt_success = publish_ok e (clock s) d
       \<and> blockchain_success = ledger_ok e (w3 s) (clock s) d
       \<and> read_offline_data s1 = read_offline_data s @ (if mqtt_success then [] else [d])
       \<and> read_offline_data s2 = read_offline_data s1 @ (if blockchain_success then [] else [d])
       \<and> (\<not> mqtt_success \<and> \<not> blockchain_success \<longrightarrow>
            read_offline_data s2 = read_offline_data s @ [d, d]))"
  by (simp add: case_prod_beta send_data_fields read_send_data_True
      read_send_to_blockchain_True fst_send_to_blockchain)

theorem each_failed_channel_appends_once_witness:
  "\<not> fst (send_data env_down (sim_start ganache (Some (Records [reading_cool]))) reading_warm True)
   \<and> \<not> fst (send_to_blockchain env_down
         (snd (send_data env_down (sim_start ganache (Some (Records [reading_cool])))
                reading_warm True)) reading_warm True)
   \<and> read_offline_data (snd (send_to_blockchain env_down
         (snd (send_data env_down (sim_start ganache (Some (Records [reading_cool])))
                reading_warm True)) reading_warm True))
     = [reading_cool, reading_warm, reading_warm]"
  using each_failed_channel_appends_once
    [of env_down "sim_start ganache (Some (Records [reading_cool]))" reading_warm]
  by (simp add: case_prod_beta sample_defs read_offline_data_def save_data_offline_def
      send_data_def send_to_blockchain_def Let_def MQTT_ERR_SUCCESS_def)

text \<open>
  C3. During a pass of \<^verbatim>\<open>resync_offline_data\<close> no channel send appends to the offline
  buffer, however many attempts fail: a send with buffering suppressed leaves the file as
  it is, so does the whole loop over the buffered readings, and the buffer after the pass
  is a subsequence of the buffer before it. The file changes only in the last step.
\<close>

theorem resync_sends_do_not_touch_the_buffer:
  "offline_file (snd (send_data e s d False)) = offline_file s
   \<and> offline_file (snd (send_to_blockchain e s d False)) = offline_file s
   \<and> offline_file (snd (resync_loop e s xs acc)) = offline_file s
   \<and> subseq (read_offline_data (resync_offline_data e s)) (read_offline_data s)"
  using resync_loop_result [of e s xs acc]
  by (simp add: send_data_False send_to_blockchain_False_fields read_resync)

theorem resync_sends_do_not_touch_the_buffer_witness:
  "offline_file (snd (resync_loop env_down
       (sim_start ganache (Some (Records [reading_cool, reading_warm])))
       [reading_cool, reading_warm] []))
     = Some (Records [reading_cool, reading_warm])
   \<and> fst (resync_loop env_down
       (sim_start ganache (Some (Records [reading_cool, reading_warm])))
       [reading_cool, reading_warm] []) = [reading_cool, reading_warm]"
  using resync_sends_do_not_touch_the_buffer
    [of env_down "sim_start ganache (Some (Records [reading_cool, reading_warm]))"
        reading_cool "[reading_cool, reading_warm]" "[]"]
  by (simp add: sample_defs send_data_def send_to_blockchain_def Let_def MQTT_ERR_SUCCESS_def)

text \<open>
  C4. In the simulation loop the mode becomes Offline exactly when it is Offline already or
  the delivery of the pass fails on both channels. Once Offline it stays Offline for every
  further pass of the loop, and the loop makes no further transport call: nothing in the
  loop sets the mode back to Online. A run whose initial connection fails starts Offline.
\<close>

theorem offline_mode_is_set_on_double_failure_and_kept:
  "offline_mode (tick e s smp) =
     (offline_mode s \<or>
      (\<not> publish_ok e (clock s) (create_sensor_data ''sensor_01'' smp) \<and>
       \<not> ledger_ok e (w3 s) (clock s) (create_sensor_data ''sensor_01'' smp)))
   \<and> (offline_mode (simulation_loop e s pre) \<longrightarrow>
        offline_mode (simulation_loop e s (pre @ post))
        \<and> calls (simulation_loop e s (pre @ post)) = calls (simulation_loop e s pre))
   \<and> (client_connect_raises e \<longrightarrow> offline_mode (run_simulation e s smps))"
  using loop_stays_offline [of "simulation_loop e s pre" e post]
    loop_stays_offline [of "s\<lparr>offline_mode := True\<rparr>" e smps]
  by (simp add: tick_offline_mode simulation_loop_append run_simulation_def connect_def)

theorem offline_mode_is_set_on_double_failure_and_kept_witness:
  "\<not> offline_mode (sim_start ganache None)
   \<and> offline_mode (tick env_down (sim_start ganache None) sample_one)
   \<and> offline_mode (simulation_loop env_down (sim_start ganache None) [sample_one])
   \<and> offline_mode (simulation_loop env_down (sim_start ganache None) ([sample_one] @ [sample_two]))
   \<and> client_connect_raises env_down
   \<and> offline_mode (run_simulation env_down (sim_start ganache None) [sample_one])"
  using offline_mode_is_set_on_double_failure_and_kept
    [of env_down "sim_start ganache None" sample_one "[sample_one]" "[sample_two]" "[sample_one]"]
  by (simp add: sample_defs publish_ok_def ledger_ok_def MQTT_ERR_SUCCESS_def)

text \<open>
  C5. The offline file is either absent or holds a JSON array, and every buffer operation
  keeps it so: the append of \<^verbatim>\<open>save_data_offline\<close>, also when it is reached through a
  failed send, and the rewrite or removal at the end of \<^verbatim>\<open>resync_offline_data\<close>.
\<close>

theorem buffer_operations_keep_the_file_valid:
  assumes "valid_buffer (offline_file s)"
  shows "valid_buffer (offline_file (save_data_offline s d))
       \<and> valid_buffer (offline_file (snd (send_data e s d allow)))
       \<and> valid_buffer (offline_file (snd (send_to_blockchain e s d allow)))
       \<and> valid_buffer (offline_file (resync_offline_data e s))"
  using assms by (simp add: valid_save valid_send_data valid_send_to_blockchain valid_resync)

theorem buffer_operations_keep_the_file_valid_witness:
  "valid_buffer (offline_file (sim_start ganache (Some (Records [reading_cool, reading_warm]))))
   \<and> valid_buffer (offline_file
        (save_data_offline (sim_start ganache (Some (Records [reading_cool, reading_warm])))
           reading_warm))
   \<and> valid_buffer (offline_file (resync_offline_data env_picky
        (sim_start ganache (Some (Records [reading_cool, reading_warm])))))"
  using buffer_operations_keep_the_file_valid
    [of "sim_start ganache (Some (Records [reading_cool, reading_warm]))"
        reading_warm env_picky True]
  by (simp add: sample_defs valid_buffer_def)



text \<open>
  C7. When the success of each channel does not depend on the attempt (the channels behave
  the same throughout) and nothing is appended in between, a second
  \<^verbatim>\<open>resync_offline_data\<close> right after a first one leaves the offline file exactly as the
  first one left it.
\<close>

theorem resync_twice_is_resync_once:
  assumes p: "\<forall>n m d. publish_ok e n d = publish_ok e m d"
    and l: "\<forall>n m d. ledger_ok e (w3 s) n d = ledger_ok e (w3 s) m d"
  shows "offline_file (resync_offline_data e (resync_offline_data e s)) =
         offline_file (resync_offline_data e s)"
proof (cases "\<exists>xs. offline_file s = Some (Records xs) \<and> xs \<noteq> []")
  case False
  then have "resync_offline_data e s = s" by (intro resync_unchanged) auto
  then show ?thesis by simp
next
  case True
  then obtain xs where xs: "offline_file s = Some (Records xs)" "xs \<noteq> []" by blast
  let ?P = "\<lambda>d. \<not> publish_ok e 0 d \<or> \<not> ledger_ok e (w3 s) 0 d"
  let ?s = "resync_offline_data e s"
  have r: "\<And>n ys. retained e (w3 s) n ys = filter ?P ys"
    using retained_const [OF p l] .
  have w: "w3 ?s = w3 s" using resync_file(2) [OF xs] .
  have f: "offline_file ?s = (if filter ?P xs = [] then None else Some (Records (filter ?P xs)))"
    using resync_file(1) [OF xs, of e] by (simp add: r)
  show ?thesis
  proof (cases "filter ?P xs = []")
    case True
    then have "offline_file ?s = None" using f by simp
    then have "resync_offline_data e ?s = ?s" by (intro resync_unchanged) simp
    then show ?thesis by simp
  next
    case False
    then have "offline_file ?s = Some (Records (filter ?P xs))" using f by simp
    from resync_file(1) [OF this False, of e] show ?thesis
      using False f by (simp add: w r)
  qed
qed

theorem resync_twice_is_resync_once_witness:
  "(\<forall>n m d. publish_ok env_picky n d = publish_ok env_picky m d)
   \<and> (\<forall>n m d. ledger_ok env_picky (w3 (sim_start ganache (Some (Records [reading_cool, reading_warm])))) n d
               = ledger_ok env_picky (w3 (sim_start ganache (Some (Records [reading_cool, reading_warm])))) m d)
   \<and> offline_file (resync_offline_data env_picky (resync_offline_data env_picky
        (sim_start ganache (Some (Records [reading_cool, reading_warm])))))
     = offline_file (resync_offline_data env_picky
        (sim_start ganache (Some (Records [reading_cool, reading_warm]))))
   \<and> offline_file (resync_offline_data env_picky
        (sim_start ganache (Some (Records [reading_cool, reading_warm]))))
     = Some (Records [reading_warm])"
proof -
  let ?s = "sim_start ganache (Some (Records [reading_cool, reading_warm]))"
  have p: "\<forall>n m d. publish_ok env_picky n d = publish_ok env_picky m d"
    by (simp add: publish_ok_def env_picky_def)
  have l: "\<forall>n m d. ledger_ok env_picky (w3 ?s) n d = ledger_ok env_picky (w3 ?s) m d"
    by (simp add: ledger_ok_def env_picky_def)
  have "offline_file (resync_offline_data env_picky ?s) = Some (Records [reading_warm])"
    by (simp add: sample_defs resync_offline_data_def send_data_def send_to_blockchain_def
        Let_def MQTT_ERR_SUCCESS_def)
  with p l resync_twice_is_resync_once [OF p l] show ?thesis by simp
qed



text \<open>
  C9. Without a ledger endpoint (\<open>w3\<close> is \<open>None\<close>) a ledger send returns \<open>False\<close>, makes
  no call on the ledger, and appends the reading to the buffer when buffering is allowed.
  So in Online mode each pass of the loop buffers its reading, once when the publish
  succeeds and twice when it fails, and the mode stays Online exactly as long as the
  publish succeeds.
\<close>

theorem no_ledger_endpoint_buffers_every_reading:
  assumes "w3 s = None"
  shows "send_to_blockchain e s d allow = (False, if allow then save_data_offline s d else s)
       \<and> calls (snd (send_to_blockchain e s d allow)) = calls s
       \<and> (\<not> offline_mode s \<longrightarrow>
           (let data = create_sensor_data ''sensor_01'' smp in
              read_offline_data (tick e s smp) =
                read_offline_data s @ (if publish_ok e (clock s) data then [data] else [data, data])
              \<and> offline_mode (tick e s smp) = (\<not> publish_ok e (clock s) data)
              \<and> calls (tick e s smp) = calls s @ [Publish data]))"
proof -
  have 1: "send_to_blockchain e s d allow = (False, if allow then save_data_offline s d else s)"
    using assms by (simp add: send_to_blockchain_def)
  have 2: "\<And>s' x. w3 s' = None \<Longrightarrow> send_to_blockchain e s' x True = (False, save_data_offline s' x)"
    by (simp add: send_to_blockchain_def)
  show ?thesis
    using assms
    by (simp add: 1 save_fields tick_def Let_def case_prod_beta send_data_fields 2
        read_other_fields read_save read_send_data_True ledger_ok_def)
qed

theorem no_ledger_endpoint_buffers_every_reading_witness:
  "w3 (sim_start None None) = None
   \<and> \<not> offline_mode (sim_start None None)
   \<and> read_offline_data (tick env_broker_only (sim_start None None) sample_one)
     = [create_sensor_data ''sensor_01'' sample_one]
   \<and> \<not> offline_mode (tick env_broker_only (sim_start None None) sample_one)
   \<and> calls (tick env_broker_only (sim_start None None) sample_one)
     = [Publish (create_sensor_data ''sensor_01'' sample_one)]"
  using no_ledger_endpoint_buffers_every_reading
    [of "sim_start None None" env_broker_only reading_cool True sample_one]
  by (simp add: sim_start_def env_broker_only_def publish_ok_def MQTT_ERR_SUCCESS_def
      read_offline_data_def Let_def)

text \<open>
  C10. When the offline file exists and its content is no valid JSON (empty, blank or
  unparsable text), \<^verbatim>\<open>resync_offline_data\<close> returns with nothing changed: no transport
  call is made and the file is neither rewritten nor removed. \<^verbatim>\<open>save_data_offline\<close> on
  the same file replaces it by an array holding just the new reading.
\<close>

theorem resync_leaves_unparsable_file_alone:
  assumes "offline_file s = Some c" and "\<forall>xs. c \<noteq> Records xs"
  shows "resync_offline_data e s = s
       \<and> offline_file (save_data_offline s d) = Some (Records [d])"
  using assms
  by (cases c) (simp_all add: resync_offline_data_def save_data_offline_def read_offline_data_def)

theorem resync_leaves_unparsable_file_alone_witness:
  "offline_file (sim_start ganache (Some Unparsable)) = Some Unparsable
   \<and> (\<forall>xs. Unparsable \<noteq> Records xs)
   \<and> resync_offline_data env_picky (sim_start ganache (Some Unparsable))
     = sim_start ganache (Some Unparsable)
   \<and> offline_file (save_data_offline (sim_start ganache (Some Unparsable)) reading_cool)
     = Some (Records [reading_cool])"
  using resync_leaves_unparsable_file_alone
    [of "sim_start ganache (Some Unparsable)" Unparsable env_picky reading_cool]
  by (simp add: sim_start_def)

end
